theory Spec2Isabelle
  imports Main "HOL-Library.Multiset" "HOL-Library.Char_ord" "HOL-Library.List_Lexorder"
begin

section \<open>Data model of \<^verbatim>\<open>src/pos.jsx\<close>\<close>

text \<open>
  The JavaScript objects of the program become records. A field keeps its source name unless
  that name is already a HOL constant or is used by another record of this theory:
  \<^item> \<open>id\<close> of a menu item or order line is \<open>item_id\<close>;
  \<^item> \<open>total\<close> of a table document is \<open>table_total\<close>, of a sale document \<open>sale_total\<close>;
  \<^item> \<open>tableId\<close> of a sale document is \<open>sale_tableId\<close>;
  \<^item> \<open>name\<close> of a report row is \<open>row_name\<close>.

  Amounts and quantities are JavaScript numbers. The menu of the program prices every item
  in whole rupees and the user interface changes quantities by \<open>+1\<close> and \<open>-1\<close>, so they
  are modelled as unbounded integers: the sums and products of the program are exact on
  integers below \<open>2 ^ 53\<close>, and no rounding of binary fractions is modelled.
\<close>

record menu_item =
  item_id :: string
  name :: string
  price :: int

text \<open>An order line is a menu item spread into a new object with a \<open>quantity\<close>.\<close>

record order_line = menu_item +
  quantity :: int

datatype table_status = Closed | Open

text \<open>
  A document of the \<open>tables\<close> collection. \<open>lastUpdate\<close> is written by \<open>saveOrder\<close> only,
  so a document created by the initialisation has none.
\<close>

record table_doc =
  tableId :: nat
  status :: table_status
  order :: "order_line list"
  table_total :: int
  lastUpdate :: "int option"

text \<open>
  A document of the \<open>sales\<close> collection. \<open>timestamp\<close> holds the seconds of the Firestore
  timestamp; it is \<open>None\<close> where the JavaScript value is \<open>null\<close> or missing, as it is in a
  local snapshot before the server has assigned the write time.
\<close>

record sale_doc =
  sale_tableId :: nat
  items :: "order_line list"
  sale_total :: int
  timestamp :: "int option"
  date :: string

section \<open>Dates and strings of the JavaScript runtime\<close>

text \<open>
  Modelled from the spec: the \<open>Date\<close> object, \<open>Intl.DateTimeFormat\<close> and the string
  methods belong to the JavaScript runtime, not to the repository. The spec (section 4.5)
  gives what the program gets from them: the bucket keys \<open>YYYY-MM-DD\<close>, \<open>YYYY-MM\<close> and
  \<open>YYYY\<close> and the month label "Mon YYYY". The functions below compute them as the language
  standard defines them: a \<open>Date\<close> is its time value, the milliseconds since
  1970-01-01T00:00:00Z, and the calendar is the proleptic Gregorian one.
\<close>

definition msPerDay :: int where
  "msPerDay = 86400000"

definition Day :: "int \<Rightarrow> int" where
  "Day t = t div msPerDay"

text \<open>Year, month (1 to 12) and day of the month of a day number counted from 1970-01-01.\<close>

definition civil_from_days :: "int \<Rightarrow> int \<times> int \<times> int" where
  "civil_from_days z =
     (let z' = z + 719468;
          era = z' div 146097;
          doe = z' mod 146097;
          yoe = (doe - doe div 1460 + doe div 36524 - doe div 146096) div 365;
          doy = doe - (365 * yoe + yoe div 4 - yoe div 100);
          mp = (5 * doy + 2) div 153;
          d = doy - (153 * mp + 2) div 5 + 1;
          m = (if mp < 10 then mp + 3 else mp - 9);
          y = yoe + era * 400 + (if m \<le> 2 then 1 else 0)
      in (y, m, d))"

definition days_from_civil :: "int \<Rightarrow> int \<Rightarrow> int \<Rightarrow> int" where
  "days_from_civil y m d =
     (let y' = (if m \<le> 2 then y - 1 else y);
          era = y' div 400;
          yoe = y' mod 400;
          doy = (153 * (if m > 2 then m - 3 else m + 9) + 2) div 5 + d - 1;
          doe = yoe * 365 + yoe div 4 - yoe div 100 + doy
      in era * 146097 + doe - 719468)"

definition digit :: "nat \<Rightarrow> char" where
  "digit k = ''0123456789'' ! (k mod 10)"

fun decimal :: "nat \<Rightarrow> string" where
  "decimal n = (if n < 10 then [digit n] else decimal (n div 10) @ [digit n])"

declare decimal.simps [simp del]

text \<open>\<open>Number.prototype.toString\<close> on an integer.\<close>

definition Number_toString :: "int \<Rightarrow> string" where
  "Number_toString i = (if i < 0 then ''-'' @ decimal (nat (- i)) else decimal (nat i))"

definition pad :: "nat \<Rightarrow> string \<Rightarrow> string" where
  "pad w s = replicate (w - length s) (CHR ''0'') @ s"

text \<open>
  \<open>Date.prototype.toISOString\<close>: \<open>YYYY-MM-DDTHH:mm:ss.sssZ\<close> in UTC, the year with a sign
  and six digits outside 0 to 9999.
\<close>

definition toISOString :: "int \<Rightarrow> string" where
  "toISOString t =
     (let (y, m, d) = civil_from_days (Day t);
          ms = t mod msPerDay;
          year = (if 0 \<le> y \<and> y \<le> 9999 then pad 4 (decimal (nat y))
                  else (if y < 0 then ''-'' else ''+'') @ pad 6 (decimal (nat \<bar>y\<bar>)))
      in year @ ''-'' @ pad 2 (decimal (nat m)) @ ''-'' @ pad 2 (decimal (nat d)) @ ''T''
         @ pad 2 (decimal (nat (ms div 3600000))) @ '':''
         @ pad 2 (decimal (nat (ms div 60000 mod 60))) @ '':''
         @ pad 2 (decimal (nat (ms div 1000 mod 60))) @ ''.''
         @ pad 3 (decimal (nat (ms mod 1000))) @ ''Z'')"

text \<open>\<^verbatim>\<open>s.split('T')[0]\<close>: the part of \<open>s\<close> before its first \<open>T\<close>.\<close>

definition split_T_0 :: "string \<Rightarrow> string" where
  "split_T_0 s = takeWhile (\<lambda>c. c \<noteq> CHR ''T'') s"

definition digit_value :: "char \<Rightarrow> nat" where
  "digit_value c = length (takeWhile (\<lambda>d. d \<noteq> c) ''0123456789'')"

definition parse_decimal :: "string \<Rightarrow> nat" where
  "parse_decimal s = foldl (\<lambda>n c. 10 * n + digit_value c) 0 s"

text \<open>
  \<^verbatim>\<open>new Date(s)\<close> on a date-only string \<open>YYYY-MM-DD\<close> with a four-digit year, which is what
  the program passes: midnight UTC of that day.
\<close>

definition Date_parse :: "string \<Rightarrow> int" where
  "Date_parse s =
     days_from_civil (int (parse_decimal (take 4 s))) (int (parse_decimal (take 2 (drop 5 s))))
       (int (parse_decimal (take 2 (drop 8 s)))) * msPerDay"

text \<open>
  Local time. The offset of the runtime's time zone from UTC, in milliseconds, is a
  parameter \<open>tz\<close> of the model; it may depend on the instant (daylight saving).
\<close>

definition LocalTime :: "(int \<Rightarrow> int) \<Rightarrow> int \<Rightarrow> int" where
  "LocalTime tz t = t + tz t"

definition getFullYear :: "(int \<Rightarrow> int) \<Rightarrow> int \<Rightarrow> int" where
  "getFullYear tz t = fst (civil_from_days (Day (LocalTime tz t)))"

definition month_short :: "string list" where
  "month_short = [''Jan'', ''Feb'', ''Mar'', ''Apr'', ''May'', ''Jun'',
                  ''Jul'', ''Aug'', ''Sep'', ''Oct'', ''Nov'', ''Dec'']"

text \<open>
  \<^verbatim>\<open>new Intl.DateTimeFormat('en-US', { year: 'numeric', month: 'short' }).format(d)\<close>:
  the short month name and the year of the local date, as in \<open>Jan 2024\<close>.
\<close>

definition Intl_format :: "(int \<Rightarrow> int) \<Rightarrow> int \<Rightarrow> string" where
  "Intl_format tz t =
     (let (y, m, d) = civil_from_days (Day (LocalTime tz t))
      in month_short ! nat (m - 1) @ '' '' @ Number_toString y)"

text \<open>
  Modelled from the spec: \<open>String.prototype.localeCompare\<close> is the runtime's collation. The
  spec (section 4.5, step 4) describes the order it gives on the report labels as
  lexicographic string order, which is the order on \<open>string\<close> used here: characters
  compare by their codes.
\<close>

definition localeCompare :: "string \<Rightarrow> string \<Rightarrow> int" where
  "localeCompare a b = (if a < b then - 1 else if a = b then 0 else 1)"

text \<open>
  \<open>Array.prototype.sort\<close> with a comparison function: a stable sort, here by insertion.
  An element goes before the first element that the comparison does not put before it.
\<close>

fun insert_sorted :: "('a \<Rightarrow> 'a \<Rightarrow> int) \<Rightarrow> 'a \<Rightarrow> 'a list \<Rightarrow> 'a list" where
  "insert_sorted cmp x [] = [x]"
| "insert_sorted cmp x (y # ys) =
     (if cmp x y \<le> 0 then x # y # ys else y # insert_sorted cmp x ys)"

definition Array_sort :: "('a \<Rightarrow> 'a \<Rightarrow> int) \<Rightarrow> 'a list \<Rightarrow> 'a list" where
  "Array_sort cmp xs = foldr (insert_sorted cmp) xs []"

section \<open>The remote store (Firestore)\<close>

text \<open>
  Modelled from the spec: the Firestore client (\<open>addDoc\<close>, \<open>updateDoc\<close>, \<open>setDoc\<close>) is a
  library outside the repository; section 6 of the spec lists its operations as the
  interface of the remote stores (\<open>append\<close> on the sales, \<open>upsertMerge\<close> on the tables), and
  section 4.2 describes the merge-write as one that does not overwrite the fields it does
  not specify. The store holds the two collections of the program. The
  document of table \<open>i\<close> has the id \<open>String(i)\<close>, so the \<open>tables\<close> collection is a map from
  table numbers. The documents of \<open>sales\<close> get ids assigned by the store and are kept in
  the order of their creation. \<open>writes\<close> records every write request issued so far, in
  order, with whether it took effect: it is what an observer of the store's traffic sees.
\<close>

datatype request = AddSale | UpdateTable nat | SetTable nat

record world =
  tables_coll :: "nat \<Rightarrow> table_doc option"
  sales_coll :: "sale_doc list"
  writes :: "(request \<times> bool) list"

text \<open>
  Whether a request reaches the store (\<open>True\<close>) or fails with a transport error is decided
  by the environment, a parameter \<open>net\<close> of every operation.
\<close>

type_synonym network = "request \<Rightarrow> bool"

text \<open>The fields of a table document that a write names; \<open>None\<close> is a field left out.\<close>

record table_fields =
  tableId_f :: "nat option"
  status_f :: "table_status option"
  order_f :: "order_line list option"
  total_f :: "int option"
  lastUpdate_f :: "int option"

text \<open>
  Merging named fields into a document: a field that the write names replaces the
  document's value, a field that it leaves out keeps it.
\<close>

definition merge_fields :: "table_fields \<Rightarrow> table_doc \<Rightarrow> table_doc" where
  "merge_fields f t =
     \<lparr>tableId = (case tableId_f f of Some v \<Rightarrow> v | None \<Rightarrow> tableId t),
      status = (case status_f f of Some v \<Rightarrow> v | None \<Rightarrow> status t),
      order = (case order_f f of Some v \<Rightarrow> v | None \<Rightarrow> order t),
      table_total = (case total_f f of Some v \<Rightarrow> v | None \<Rightarrow> table_total t),
      lastUpdate = (case lastUpdate_f f of Some v \<Rightarrow> Some v | None \<Rightarrow> lastUpdate t)\<rparr>"

text \<open>
  The document that a write creates where there was none. The program creates table
  documents with \<open>tableId\<close>, \<open>status\<close>, \<open>order\<close> and \<open>total\<close> only; a write that leaves one
  of them out creates no document of the model.
\<close>

definition new_table_doc :: "table_fields \<Rightarrow> table_doc option" where
  "new_table_doc f =
     (case (tableId_f f, status_f f, order_f f, total_f f) of
        (Some i, Some s, Some ord, Some tot) \<Rightarrow>
          Some \<lparr>tableId = i, status = s, order = ord, table_total = tot,
                lastUpdate = lastUpdate_f f\<rparr>
      | _ \<Rightarrow> None)"

text \<open>\<open>addDoc\<close> on the \<open>sales\<close> collection: a new document, or a rejected promise.\<close>

definition addDoc :: "network \<Rightarrow> sale_doc \<Rightarrow> world \<Rightarrow> bool \<times> world" where
  "addDoc net d w =
     (if net AddSale
      then (True, w\<lparr>sales_coll := sales_coll w @ [d], writes := writes w @ [(AddSale, True)]\<rparr>)
      else (False, w\<lparr>writes := writes w @ [(AddSale, False)]\<rparr>))"

text \<open>
  \<open>updateDoc\<close> on a table document: the named fields are written into an existing
  document; the promise is rejected when the request fails or there is no such document.
\<close>

definition updateDoc :: "network \<Rightarrow> nat \<Rightarrow> table_fields \<Rightarrow> world \<Rightarrow> bool \<times> world" where
  "updateDoc net i f w =
     (case tables_coll w i of
        Some t \<Rightarrow>
          if net (UpdateTable i)
          then (True, w\<lparr>tables_coll := (tables_coll w)(i \<mapsto> merge_fields f t),
                         writes := writes w @ [(UpdateTable i, True)]\<rparr>)
          else (False, w\<lparr>writes := writes w @ [(UpdateTable i, False)]\<rparr>)
      | None \<Rightarrow> (False, w\<lparr>writes := writes w @ [(UpdateTable i, False)]\<rparr>))"

text \<open>
  \<open>setDoc\<close> with \<^verbatim>\<open>{ merge: true }\<close> on a table document: the named fields are merged into
  the document if it exists, and the document is created from them if it does not.
\<close>

definition setDoc_merge :: "network \<Rightarrow> nat \<Rightarrow> table_fields \<Rightarrow> world \<Rightarrow> bool \<times> world" where
  "setDoc_merge net i f w =
     (if net (SetTable i)
      then (True,
        w\<lparr>tables_coll :=
             (tables_coll w)
               (i := (case tables_coll w i of
                        Some t \<Rightarrow> Some (merge_fields f t)
                      | None \<Rightarrow> new_table_doc f)),
           writes := writes w @ [(SetTable i, True)]\<rparr>)
      else (False, w\<lparr>writes := writes w @ [(SetTable i, False)]\<rparr>))"

section \<open>The order cart (\<open>OrderModal\<close>)\<close>

text \<open>
  \<^verbatim>\<open>currentOrder.reduce((sum, item) => sum + item.price * item.quantity, 0)\<close>
\<close>

definition tableTotal :: "order_line list \<Rightarrow> int" where
  "tableTotal currentOrder = foldl (\<lambda>sum item. sum + price item * quantity item) 0 currentOrder"

text \<open>
  The state updater passed to \<open>setCurrentOrder\<close> by \<open>updateItemQuantity\<close>, as a function of
  the previous order. The item is a menu item (the menu's plus button) or an order line (the
  cart's plus and minus buttons); only its \<open>id\<close>, \<open>name\<close> and \<open>price\<close> are read, and the
  spread \<^verbatim>\<open>{ ...item, quantity: 1 }\<close> sets the quantity of the new line to 1 in both cases.
\<close>

definition updateItemQuantity ::
  "order_line list \<Rightarrow> 'a menu_item_scheme \<Rightarrow> int \<Rightarrow> order_line list" where
  "updateItemQuantity prevOrder item delta =
     (case find (\<lambda>i. item_id i = item_id item) prevOrder of
        Some existingItem \<Rightarrow>
          (let newQuantity = quantity existingItem + delta in
           if newQuantity \<le> 0 then filter (\<lambda>i. item_id i \<noteq> item_id item) prevOrder
           else map (\<lambda>i. if item_id i = item_id item then i\<lparr>quantity := newQuantity\<rparr> else i)
                  prevOrder)
      | None \<Rightarrow>
          if delta > 0
          then prevOrder @
            [\<lparr>item_id = item_id item, name = name item, price = price item, quantity = 1\<rparr>]
          else prevOrder)"

section \<open>Saving and checking out (\<open>App\<close> and \<open>OrderModal\<close>)\<close>

text \<open>
  The handlers of \<open>App\<close>, as functions on the store. \<open>db\<close> says whether the Firestore
  handle is set, \<open>serverNow\<close> is the write time that the server puts for
  \<open>serverTimestamp()\<close> (in seconds), \<open>clientNow\<close> is the time value of the client's
  \<^verbatim>\<open>new Date()\<close>. A rejected promise is caught and logged to the console: the handler
  returns with the store as the writes so far have left it.
\<close>

definition saveOrder ::
  "bool \<Rightarrow> network \<Rightarrow> int \<Rightarrow> nat \<Rightarrow> order_line list \<Rightarrow> int \<Rightarrow> world \<Rightarrow> world" where
  "saveOrder db net serverNow tid orderItems tot w =
     (if \<not> db then w
      else snd (updateDoc net tid
        \<lparr>tableId_f = None,
         status_f = Some (if length orderItems > 0 then Open else Closed),
         order_f = Some orderItems,
         total_f = Some tot,
         lastUpdate_f = Some serverNow\<rparr> w))"

definition handleCheckout ::
  "bool \<Rightarrow> network \<Rightarrow> int \<Rightarrow> int \<Rightarrow> nat \<Rightarrow> order_line list \<Rightarrow> int \<Rightarrow> world \<Rightarrow> world" where
  "handleCheckout db net serverNow clientNow tid orderItems tot w =
     (if \<not> db then w
      else
        (case addDoc net
           \<lparr>sale_tableId = tid, items = orderItems, sale_total = tot,
            timestamp = Some serverNow, date = split_T_0 (toISOString clientNow)\<rparr> w of
           (False, w1) \<Rightarrow> w1
         | (True, w1) \<Rightarrow>
             snd (updateDoc net tid
               \<lparr>tableId_f = None, status_f = Some Closed, order_f = Some [],
                total_f = Some 0, lastUpdate_f = None\<rparr> w1)))"

text \<open>
  The state of an open \<open>OrderModal\<close>: the table it was opened on, the cart and the inline
  message. The timers that clear the message and close the modal are not modelled. The
  handlers get \<open>onSave\<close> and \<open>onCheckout\<close> as \<open>App\<close> passes them.
\<close>

record modal =
  table :: table_doc
  currentOrder :: "order_line list"
  message :: string

definition handleSave ::
  "(nat \<Rightarrow> order_line list \<Rightarrow> int \<Rightarrow> world \<Rightarrow> world) \<Rightarrow> modal \<Rightarrow> world \<Rightarrow> modal \<times> world" where
  "handleSave onSave m w =
     (m\<lparr>message := ''Order saved!''\<rparr>,
      onSave (tableId (table m)) (currentOrder m) (tableTotal (currentOrder m)) w)"

definition OrderModal_handleCheckout ::
  "(nat \<Rightarrow> order_line list \<Rightarrow> int \<Rightarrow> world \<Rightarrow> world) \<Rightarrow> modal \<Rightarrow> world \<Rightarrow> modal \<times> world" where
  "OrderModal_handleCheckout onCheckout m w =
     (if length (currentOrder m) = 0
      then (m\<lparr>message := ''Cannot checkout an empty order.''\<rparr>, w)
      else (m\<lparr>message := ''Checkout complete!''\<rparr>,
            onCheckout (tableId (table m)) (currentOrder m) (tableTotal (currentOrder m)) w))"

section \<open>Table initialisation (\<open>OrdersView\<close>)\<close>

text \<open>
  The loop of \<open>initTables\<close>, from table \<open>i\<close> on. The loop sits in one \<open>try\<close> block, so the
  first rejected write ends it.
\<close>

function initTables_from :: "network \<Rightarrow> nat \<Rightarrow> world \<Rightarrow> world" where
  "initTables_from net i w =
     (if i \<le> 10
      then
        (let r = setDoc_merge net i
           \<lparr>tableId_f = Some i, status_f = Some Closed, order_f = Some [],
            total_f = Some 0, lastUpdate_f = None\<rparr> w
         in if fst r then initTables_from net (i + 1) (snd r) else snd r)
      else w)"
  by pat_completeness auto
termination
  by (relation "measure (\<lambda>(net, i, w). 11 - i)") auto

declare initTables_from.simps [simp del]

definition initTables :: "network \<Rightarrow> world \<Rightarrow> world" where
  "initTables net w = initTables_from net 1 w"

text \<open>
  The effect of \<open>OrdersView\<close>: it runs \<open>initTables\<close> when the client's own list of tables,
  the last snapshot it received, is empty.
\<close>

definition OrdersView_effect ::
  "bool \<Rightarrow> bool \<Rightarrow> table_doc list \<Rightarrow> network \<Rightarrow> world \<Rightarrow> world" where
  "OrdersView_effect isAuthReady db tables net w =
     (if isAuthReady \<and> db \<and> length tables = 0 then initTables net w else w)"

section \<open>Sales reports (\<open>ReportsView\<close>)\<close>

record report_row =
  row_name :: string
  sales :: int

datatype reportType = Daily | Monthly | Yearly

text \<open>
  The object \<open>data\<close>: its properties in the order of their creation, each a bucket key
  with its row.
\<close>

type_synonym report_data = "(string \<times> report_row) list"

text \<open>
  \<^verbatim>\<open>sale.timestamp ? new Date(sale.timestamp.seconds * 1000) : new Date(today)\<close>
\<close>

definition saleDate :: "string \<Rightarrow> sale_doc \<Rightarrow> int" where
  "saleDate today sale =
     (case timestamp sale of Some seconds \<Rightarrow> seconds * 1000 | None \<Rightarrow> Date_parse today)"

text \<open>The key and the label of the bucket of a date, by report type.\<close>

definition bucket :: "reportType \<Rightarrow> (int \<Rightarrow> int) \<Rightarrow> int \<Rightarrow> string \<times> string" where
  "bucket rt tz d =
     (case rt of
        Daily \<Rightarrow> (let key = split_T_0 (toISOString d) in (key, key))
      | Monthly \<Rightarrow> (take 7 (toISOString d), Intl_format tz d)
      | Yearly \<Rightarrow> (let key = Number_toString (getFullYear tz d) in (key, key)))"

text \<open>
  \<^verbatim>\<open>if (!data[key]) { data[key] = { name: label, sales: 0 }; } data[key].sales += amount;\<close>
  A row is an object and so never falsy: the test asks whether the key is new.
\<close>

definition add_to_bucket :: "report_data \<Rightarrow> string \<Rightarrow> string \<Rightarrow> int \<Rightarrow> report_data" where
  "add_to_bucket data key label amount =
     (let data' = (if map_of data key = None
                   then data @ [(key, \<lparr>row_name = label, sales = 0\<rparr>)] else data)
      in map (\<lambda>(k, r). if k = key then (k, r\<lparr>sales := sales r + amount\<rparr>) else (k, r)) data')"

text \<open>The body of the \<open>forEach\<close> over the sales.\<close>

definition aggregate_sale ::
  "reportType \<Rightarrow> (int \<Rightarrow> int) \<Rightarrow> string \<Rightarrow> report_data \<Rightarrow> sale_doc \<Rightarrow> report_data" where
  "aggregate_sale rt tz today data sale =
     (let (key, label) = bucket rt tz (saleDate today sale)
      in add_to_bucket data key label (sale_total sale))"

text \<open>
  \<open>Object.values\<close>: the values of the keys that are array indices (canonical decimal
  numerals below \<open>2 ^ 32 - 1\<close>) in ascending numeric order, then the values of the other
  keys in the order of their creation.
\<close>

definition is_array_index :: "string \<Rightarrow> bool" where
  "is_array_index k =
     (k \<noteq> [] \<and> (\<forall>c \<in> set k. c \<in> set ''0123456789'') \<and> (k = ''0'' \<or> hd k \<noteq> CHR ''0'')
      \<and> parse_decimal k < 4294967295)"

definition Object_values :: "report_data \<Rightarrow> report_row list" where
  "Object_values data =
     map snd (sort_key (\<lambda>(k, r). parse_decimal k) (filter (\<lambda>(k, r). is_array_index k) data))
     @ map snd (filter (\<lambda>(k, r). \<not> is_array_index k) data)"

text \<open>
  \<open>aggregatedData\<close>, for a report type, a time zone, the time value \<open>now\<close> of
  \<^verbatim>\<open>new Date()\<close> and the list of sales.
\<close>

definition aggregatedData ::
  "reportType \<Rightarrow> (int \<Rightarrow> int) \<Rightarrow> int \<Rightarrow> sale_doc list \<Rightarrow> report_row list" where
  "aggregatedData rt tz now salesData =
     (let today = split_T_0 (toISOString now);
          data = foldl (aggregate_sale rt tz today) [] salesData
      in Array_sort (\<lambda>a b. localeCompare (row_name a) (row_name b)) (Object_values data))"

text \<open>\<^verbatim>\<open>aggregatedData.reduce((sum, item) => sum + item.sales, 0)\<close>\<close>

definition totalSales :: "report_row list \<Rightarrow> int" where
  "totalSales aggregated = foldl (\<lambda>sum item. sum + sales item) 0 aggregated"

text \<open>
  The key and the label that the body of the \<open>forEach\<close> computes for a sale, when
  \<^verbatim>\<open>new Date()\<close> has the time value \<open>now\<close>.
\<close>

definition bucketKey :: "reportType \<Rightarrow> (int \<Rightarrow> int) \<Rightarrow> int \<Rightarrow> sale_doc \<Rightarrow> string" where
  "bucketKey rt tz now sale = fst (bucket rt tz (saleDate (split_T_0 (toISOString now)) sale))"

definition bucketLabel :: "reportType \<Rightarrow> (int \<Rightarrow> int) \<Rightarrow> int \<Rightarrow> sale_doc \<Rightarrow> string" where
  "bucketLabel rt tz now sale = snd (bucket rt tz (saleDate (split_T_0 (toISOString now)) sale))"

section \<open>Notions used to state the properties of the report\<close>

text \<open>The keys of a list in the order of their first occurrence.\<close>

definition first_keys :: "string list \<Rightarrow> string list" where
  "first_keys ks = rev (remdups (rev ks))"

text \<open>
  The row that the spec describes for a bucket key \<open>k\<close>, for a key function \<open>kf\<close> and a
  label function \<open>lf\<close> on sales: its label is that of the first sale of the bucket, its
  value the sum of the totals of the sales of the bucket.
\<close>

definition bucket_row ::
  "(sale_doc \<Rightarrow> string) \<Rightarrow> (sale_doc \<Rightarrow> string) \<Rightarrow> sale_doc list \<Rightarrow> string \<Rightarrow> report_row" where
  "bucket_row kf lf xs k =
     \<lparr>row_name = lf (hd (filter (\<lambda>s. kf s = k) xs)),
      sales = (\<Sum>s\<leftarrow>filter (\<lambda>s. kf s = k) xs. sale_total s)\<rparr>"

text \<open>
  The three sales of the spec's example: totals 50, 30 and 20, written at noon UTC of
  2024-01-05, 2024-01-07 and 2024-02-01.
\<close>

definition example_sales :: "sale_doc list" where
  "example_sales =
     [\<lparr>sale_tableId = 1, items = [], sale_total = 50, timestamp = Some 1704456000,
       date = ''2024-01-05''\<rparr>,
      \<lparr>sale_tableId = 2, items = [], sale_total = 30, timestamp = Some 1704628800,
       date = ''2024-01-07''\<rparr>,
      \<lparr>sale_tableId = 1, items = [], sale_total = 20, timestamp = Some 1706788800,
       date = ''2024-02-01''\<rparr>]"

section \<open>Properties of the cart\<close>

lemma find_absent:
  "item_id item \<notin> item_id ` set xs \<Longrightarrow> find (\<lambda>i. item_id i = item_id item) xs = None"
  by (induction xs) auto

lemma find_first:
  "item_id item \<notin> item_id ` set xs \<Longrightarrow> item_id l = item_id item \<Longrightarrow>
   find (\<lambda>i. item_id i = item_id item) (xs @ l # ys) = Some l"
  by (induction xs) auto

lemma filter_absent:
  "item_id item \<notin> item_id ` set xs \<Longrightarrow> filter (\<lambda>i. item_id i \<noteq> item_id item) xs = xs"
  by (induction xs) auto

lemma map_absent:
  "item_id item \<notin> item_id ` set xs \<Longrightarrow>
   map (\<lambda>i. if item_id i = item_id item then i\<lparr>quantity := q\<rparr> else i) xs = xs"
  by (induction xs) auto

lemma filter_map_other:
  "filter (\<lambda>i. item_id i \<noteq> k)
     (map (\<lambda>i. if item_id i = k then i\<lparr>quantity := q\<rparr> else i) xs)
   = filter (\<lambda>i. item_id i \<noteq> k) xs"
  by (induction xs) auto

lemma map_ids_unchanged:
  "map (item_id \<circ> (\<lambda>i. if item_id i = k then i\<lparr>quantity := q\<rparr> else i)) xs = map item_id xs"
  by (induction xs) auto

lemma find_None_absent:
  "find (\<lambda>i. item_id i = k) xs = None \<Longrightarrow> k \<notin> item_id ` set xs"
  by (induction xs) (auto split: if_splits)

text \<open>
  Claim C6. \<open>updateItemQuantity\<close> (the spec's \<open>adjustQuantity\<close>), for every order, item and
  integer delta:
  \<^item> when the order holds a line with the item's id, let \<open>l\<close> be the first one, which is the
    one that \<open>find\<close> returns: if \<open>quantity l + delta \<le> 0\<close> the lines with that id are
    removed, and otherwise \<open>l\<close> stays in place with the quantity \<open>quantity l + delta\<close> (a
    later line with the same id, which the data model excludes, would get the same
    quantity); in an order keyed by id, where \<open>l\<close> is the only line with that id, the line
    is removed or gets \<open>old + delta\<close> and every other line is as before;
  \<^item> when no line has the item's id and \<open>delta > 0\<close>, a line with quantity 1 is appended,
    whatever the size of \<open>delta\<close>;
  \<^item> when no line has the item's id and \<open>delta \<le> 0\<close>, the order is returned unchanged.
\<close>

theorem updateItemQuantity_cases:
  "(\<forall>xs l ys. prevOrder = xs @ l # ys \<and> item_id l = item_id item
        \<and> item_id item \<notin> item_id ` set xs \<longrightarrow>
      updateItemQuantity prevOrder item delta =
        (if quantity l + delta \<le> 0
         then xs @ filter (\<lambda>i. item_id i \<noteq> item_id item) ys
         else xs @ l\<lparr>quantity := quantity l + delta\<rparr> #
           map (\<lambda>i. if item_id i = item_id item
                    then i\<lparr>quantity := quantity l + delta\<rparr> else i) ys)
      \<and> (item_id item \<notin> item_id ` set ys \<longrightarrow>
          updateItemQuantity prevOrder item delta =
            (if quantity l + delta \<le> 0 then xs @ ys
             else xs @ l\<lparr>quantity := quantity l + delta\<rparr> # ys)))
   \<and> (item_id item \<notin> item_id ` set prevOrder \<and> 0 < delta \<longrightarrow>
      updateItemQuantity prevOrder item delta =
        prevOrder @
          [\<lparr>item_id = item_id item, name = name item, price = price item, quantity = 1\<rparr>])
   \<and> (item_id item \<notin> item_id ` set prevOrder \<and> delta \<le> 0 \<longrightarrow>
      updateItemQuantity prevOrder item delta = prevOrder)"
proof (intro conjI allI impI)
  fix xs l ys
  assume a: "prevOrder = xs @ l # ys \<and> item_id l = item_id item
    \<and> item_id item \<notin> item_id ` set xs"
  then have f: "find (\<lambda>i. item_id i = item_id item) prevOrder = Some l"
    by (simp add: find_first)
  from a show first: "updateItemQuantity prevOrder item delta =
        (if quantity l + delta \<le> 0
         then xs @ filter (\<lambda>i. item_id i \<noteq> item_id item) ys
         else xs @ l\<lparr>quantity := quantity l + delta\<rparr> #
           map (\<lambda>i. if item_id i = item_id item
                    then i\<lparr>quantity := quantity l + delta\<rparr> else i) ys)"
    unfolding updateItemQuantity_def f
    by (simp add: Let_def filter_absent map_absent)
  assume "item_id item \<notin> item_id ` set ys"
  then show "updateItemQuantity prevOrder item delta =
        (if quantity l + delta \<le> 0 then xs @ ys
         else xs @ l\<lparr>quantity := quantity l + delta\<rparr> # ys)"
    unfolding first by (simp add: filter_absent map_absent)
next
  assume "item_id item \<notin> item_id ` set prevOrder \<and> 0 < delta"
  then show "updateItemQuantity prevOrder item delta =
        prevOrder @
          [\<lparr>item_id = item_id item, name = name item, price = price item, quantity = 1\<rparr>]"
    by (simp add: updateItemQuantity_def find_absent)
next
  assume "item_id item \<notin> item_id ` set prevOrder \<and> delta \<le> 0"
  then show "updateItemQuantity prevOrder item delta = prevOrder"
    by (simp add: updateItemQuantity_def find_absent)
qed

text \<open>
  The theorem at the order Tea x 2, Hot Coffee x 1: a minus on Tea leaves Tea x 1 in place.
\<close>

theorem updateItemQuantity_cases_witness:
  "updateItemQuantity
     [\<lparr>item_id = ''b7'', name = ''Tea'', price = 20, quantity = 2\<rparr>,
      \<lparr>item_id = ''b6'', name = ''Hot Coffee'', price = 30, quantity = 1\<rparr>]
     \<lparr>item_id = ''b7'', name = ''Tea'', price = 20, quantity = 2\<rparr> (- 1)
   = [\<lparr>item_id = ''b7'', name = ''Tea'', price = 20, quantity = 1\<rparr>,
      \<lparr>item_id = ''b6'', name = ''Hot Coffee'', price = 30, quantity = 1\<rparr>]"
  using updateItemQuantity_cases
    [of "[\<lparr>item_id = ''b7'', name = ''Tea'', price = 20, quantity = 2\<rparr>,
          \<lparr>item_id = ''b6'', name = ''Hot Coffee'', price = 30, quantity = 1\<rparr>]"
        "\<lparr>item_id = ''b7'', name = ''Tea'', price = 20, quantity = 2\<rparr>" "- 1",
     THEN conjunct1, rule_format,
     of "[]" "\<lparr>item_id = ''b7'', name = ''Tea'', price = 20, quantity = 2\<rparr>"
        "[\<lparr>item_id = ''b6'', name = ''Hot Coffee'', price = 30, quantity = 1\<rparr>]"]
  by simp

text \<open>
  Claim C10. \<open>updateItemQuantity\<close> leaves the lines whose id differs from the item's id as
  they are and in the same order: the lines with another id, read off the result in
  sequence, are those of the order before the call. Consequently an order whose ids are
  pairwise distinct keeps pairwise distinct ids.
\<close>

theorem updateItemQuantity_frame:
  "filter (\<lambda>i. item_id i \<noteq> item_id item) (updateItemQuantity prevOrder item delta)
     = filter (\<lambda>i. item_id i \<noteq> item_id item) prevOrder
   \<and> (distinct (map item_id prevOrder) \<longrightarrow>
        distinct (map item_id (updateItemQuantity prevOrder item delta)))"
proof (cases "find (\<lambda>i. item_id i = item_id item) prevOrder")
  case None
  then have "item_id item \<notin> item_id ` set prevOrder"
    by (rule find_None_absent)
  with None show ?thesis
    by (auto simp: updateItemQuantity_def)
next
  case (Some e)
  then show ?thesis
    by (simp add: updateItemQuantity_def Let_def filter_map_other map_ids_unchanged
        distinct_map_filter)
qed

theorem updateItemQuantity_frame_witness:
  "distinct (map item_id
     (updateItemQuantity
        [\<lparr>item_id = ''b7'', name = ''Tea'', price = 20, quantity = 2\<rparr>,
         \<lparr>item_id = ''b6'', name = ''Hot Coffee'', price = 30, quantity = 1\<rparr>]
        \<lparr>item_id = ''b1'', name = ''Oreo Shake'', price = 100\<rparr> 1))"
  using updateItemQuantity_frame
    [of "\<lparr>item_id = ''b1'', name = ''Oreo Shake'', price = 100\<rparr>"
        "[\<lparr>item_id = ''b7'', name = ''Tea'', price = 20, quantity = 2\<rparr>,
          \<lparr>item_id = ''b6'', name = ''Hot Coffee'', price = 30, quantity = 1\<rparr>]" 1]
  by simp

section \<open>Properties of saving and checking out\<close>

lemma tableTotal_foldl:
  "foldl (\<lambda>sum item. sum + price item * quantity item) a xs
   = a + (\<Sum>l\<leftarrow>xs. price l * quantity l)"
  by (induction xs arbitrary: a) auto

lemma tableTotal_sum: "tableTotal xs = (\<Sum>l\<leftarrow>xs. price l * quantity l)"
  by (simp add: tableTotal_def tableTotal_foldl)

lemma iso_date_example: "split_T_0 (toISOString 1704456000000) = ''2024-01-05''"
  by code_simp

text \<open>
  Claim C1. Checkout (\<open>handleCheckout\<close> of \<open>App\<close>) on a table whose document exists, when
  both writes reach the store: exactly one sale is appended to the sales, its items and
  total are the order and the total handed to Checkout (for a non-empty order as for any
  other), and the table's document is reset to \<open>order = []\<close>, \<open>total = 0\<close>,
  \<open>status = Closed\<close>; the other table documents are as before. The modal, on a non-empty
  cart, hands over the table's order as it stands in the cart and, as its total, the sum of
  \<open>price * quantity\<close> over its lines.
\<close>

theorem handleCheckout_success:
  assumes "db" and "net AddSale" and "net (UpdateTable tid)" and "tables_coll w tid = Some t"
  shows "sales_coll (handleCheckout db net serverNow clientNow tid orderItems tot w)
         = sales_coll w @
           [\<lparr>sale_tableId = tid, items = orderItems, sale_total = tot,
             timestamp = Some serverNow, date = split_T_0 (toISOString clientNow)\<rparr>]
       \<and> tables_coll (handleCheckout db net serverNow clientNow tid orderItems tot w)
         = (tables_coll w)(tid \<mapsto>
             \<lparr>tableId = tableId t, status = Closed, order = [], table_total = 0,
              lastUpdate = lastUpdate t\<rparr>)
       \<and> (tableId (table m) = tid \<and> currentOrder m \<noteq> [] \<longrightarrow>
           snd (OrderModal_handleCheckout (handleCheckout db net serverNow clientNow) m w)
           = handleCheckout db net serverNow clientNow tid (currentOrder m)
               (\<Sum>l\<leftarrow>currentOrder m. price l * quantity l) w)"
  using assms
  by (simp add: handleCheckout_def addDoc_def updateDoc_def merge_fields_def
      OrderModal_handleCheckout_def tableTotal_sum)

text \<open>The theorem at table 3 with the order Tea x 2 and the total 40.\<close>

theorem handleCheckout_success_witness:
  "sales_coll
     (handleCheckout True (\<lambda>r. True) 1704456000 1704456000000 3
        [\<lparr>item_id = ''b7'', name = ''Tea'', price = 20, quantity = 2\<rparr>] 40
        \<lparr>tables_coll =
            [3 \<mapsto> \<lparr>tableId = 3, status = Open,
                   order = [\<lparr>item_id = ''b7'', name = ''Tea'', price = 20, quantity = 2\<rparr>],
                   table_total = 40, lastUpdate = Some 1704455000\<rparr>],
          sales_coll = [], writes = []\<rparr>)
   = [\<lparr>sale_tableId = 3,
       items = [\<lparr>item_id = ''b7'', name = ''Tea'', price = 20, quantity = 2\<rparr>],
       sale_total = 40, timestamp = Some 1704456000, date = ''2024-01-05''\<rparr>]
   \<and> tables_coll
     (handleCheckout True (\<lambda>r. True) 1704456000 1704456000000 3
        [\<lparr>item_id = ''b7'', name = ''Tea'', price = 20, quantity = 2\<rparr>] 40
        \<lparr>tables_coll =
            [3 \<mapsto> \<lparr>tableId = 3, status = Open,
                   order = [\<lparr>item_id = ''b7'', name = ''Tea'', price = 20, quantity = 2\<rparr>],
                   table_total = 40, lastUpdate = Some 1704455000\<rparr>],
          sales_coll = [], writes = []\<rparr>) 3
   = Some \<lparr>tableId = 3, status = Closed, order = [], table_total = 0,
           lastUpdate = Some 1704455000\<rparr>"
  using handleCheckout_success
    [of True "\<lambda>r. True" 3
      "\<lparr>tables_coll =
            [3 \<mapsto> \<lparr>tableId = 3, status = Open,
                   order = [\<lparr>item_id = ''b7'', name = ''Tea'', price = 20, quantity = 2\<rparr>],
                   table_total = 40, lastUpdate = Some 1704455000\<rparr>],
          sales_coll = [], writes = []\<rparr>"
      "\<lparr>tableId = 3, status = Open,
                   order = [\<lparr>item_id = ''b7'', name = ''Tea'', price = 20, quantity = 2\<rparr>],
                   table_total = 40, lastUpdate = Some 1704455000\<rparr>"
      1704456000 1704456000000
      "[\<lparr>item_id = ''b7'', name = ''Tea'', price = 20, quantity = 2\<rparr>]" 40]
  by (simp add: iso_date_example)

text \<open>
  Claim C2. Checkout of an order with no line is rejected in \<open>OrderModal\<close> before anything
  is written: whatever \<open>onCheckout\<close> is, it is not called, the store is returned as it was
  (no sale appended, no table document changed, no write request issued), and the modal
  shows the validation message.
\<close>

theorem OrderModal_handleCheckout_empty:
  "currentOrder m = [] \<Longrightarrow>
   OrderModal_handleCheckout onCheckout m w
   = (m\<lparr>message := ''Cannot checkout an empty order.''\<rparr>, w)"
  by (simp add: OrderModal_handleCheckout_def)

theorem OrderModal_handleCheckout_empty_witness:
  "OrderModal_handleCheckout (handleCheckout True (\<lambda>r. True) 1704456000 1704456000000)
     \<lparr>table = \<lparr>tableId = 3, status = Closed, order = [], table_total = 0, lastUpdate = None\<rparr>,
      currentOrder = [], message = []\<rparr>
     \<lparr>tables_coll =
        [3 \<mapsto> \<lparr>tableId = 3, status = Closed, order = [], table_total = 0, lastUpdate = None\<rparr>],
      sales_coll = [], writes = []\<rparr>
   = (\<lparr>table = \<lparr>tableId = 3, status = Closed, order = [], table_total = 0, lastUpdate = None\<rparr>,
       currentOrder = [], message = ''Cannot checkout an empty order.''\<rparr>,
      \<lparr>tables_coll =
        [3 \<mapsto> \<lparr>tableId = 3, status = Closed, order = [], table_total = 0, lastUpdate = None\<rparr>],
      sales_coll = [], writes = []\<rparr>)"
  using OrderModal_handleCheckout_empty
    [of "\<lparr>table = \<lparr>tableId = 3, status = Closed, order = [], table_total = 0, lastUpdate = None\<rparr>,
      currentOrder = [], message = []\<rparr>"
      "handleCheckout True (\<lambda>r. True) 1704456000 1704456000000"
      "\<lparr>tables_coll =
        [3 \<mapsto> \<lparr>tableId = 3, status = Closed, order = [], table_total = 0, lastUpdate = None\<rparr>],
      sales_coll = [], writes = []\<rparr>"]
  by simp

text \<open>
  Claim C3. Sale first. In every run of \<open>handleCheckout\<close> the requests it issues are
  none, or a failed sale append alone, or a sale append that took effect followed by the
  table reset: the reset is never requested before the sale is recorded. When the sale
  append takes effect and the reset fails, the sale is recorded and the table documents
  are as before (the table is still open). And whenever a run changes a table document,
  the sale has been recorded.
\<close>

theorem handleCheckout_sale_first:
  "(writes (handleCheckout db net serverNow clientNow tid orderItems tot w) = writes w
    \<or> writes (handleCheckout db net serverNow clientNow tid orderItems tot w)
       = writes w @ [(AddSale, False)]
    \<or> (\<exists>ok. writes (handleCheckout db net serverNow clientNow tid orderItems tot w)
       = writes w @ [(AddSale, True), (UpdateTable tid, ok)]))
   \<and> (db \<and> net AddSale \<and> \<not> (net (UpdateTable tid) \<and> tables_coll w tid \<noteq> None) \<longrightarrow>
        sales_coll (handleCheckout db net serverNow clientNow tid orderItems tot w)
          = sales_coll w @
            [\<lparr>sale_tableId = tid, items = orderItems, sale_total = tot,
              timestamp = Some serverNow, date = split_T_0 (toISOString clientNow)\<rparr>]
        \<and> tables_coll (handleCheckout db net serverNow clientNow tid orderItems tot w)
          = tables_coll w)
   \<and> (tables_coll (handleCheckout db net serverNow clientNow tid orderItems tot w)
        \<noteq> tables_coll w \<longrightarrow>
        sales_coll (handleCheckout db net serverNow clientNow tid orderItems tot w)
          = sales_coll w @
            [\<lparr>sale_tableId = tid, items = orderItems, sale_total = tot,
              timestamp = Some serverNow, date = split_T_0 (toISOString clientNow)\<rparr>])"
  by (auto simp: handleCheckout_def addDoc_def updateDoc_def split: option.splits)

text \<open>
  The theorem at table 3 with the order Tea x 2, where the sale append reaches the store
  and the table reset does not: the sale is there and the table is still open.
\<close>

theorem handleCheckout_sale_first_witness:
  "sales_coll
     (handleCheckout True (\<lambda>r. r = AddSale) 1704456000 1704456000000 3
        [\<lparr>item_id = ''b7'', name = ''Tea'', price = 20, quantity = 2\<rparr>] 40
        \<lparr>tables_coll =
            [3 \<mapsto> \<lparr>tableId = 3, status = Open,
                   order = [\<lparr>item_id = ''b7'', name = ''Tea'', price = 20, quantity = 2\<rparr>],
                   table_total = 40, lastUpdate = Some 1704455000\<rparr>],
          sales_coll = [], writes = []\<rparr>)
   = [\<lparr>sale_tableId = 3,
       items = [\<lparr>item_id = ''b7'', name = ''Tea'', price = 20, quantity = 2\<rparr>],
       sale_total = 40, timestamp = Some 1704456000, date = ''2024-01-05''\<rparr>]
   \<and> tables_coll
     (handleCheckout True (\<lambda>r. r = AddSale) 1704456000 1704456000000 3
        [\<lparr>item_id = ''b7'', name = ''Tea'', price = 20, quantity = 2\<rparr>] 40
        \<lparr>tables_coll =
            [3 \<mapsto> \<lparr>tableId = 3, status = Open,
                   order = [\<lparr>item_id = ''b7'', name = ''Tea'', price = 20, quantity = 2\<rparr>],
                   table_total = 40, lastUpdate = Some 1704455000\<rparr>],
          sales_coll = [], writes = []\<rparr>)
   = [3 \<mapsto> \<lparr>tableId = 3, status = Open,
                   order = [\<lparr>item_id = ''b7'', name = ''Tea'', price = 20, quantity = 2\<rparr>],
                   table_total = 40, lastUpdate = Some 1704455000\<rparr>]"
  using handleCheckout_sale_first
    [of True "\<lambda>r. r = AddSale" 1704456000 1704456000000 3
      "[\<lparr>item_id = ''b7'', name = ''Tea'', price = 20, quantity = 2\<rparr>]" 40
      "\<lparr>tables_coll =
            [3 \<mapsto> \<lparr>tableId = 3, status = Open,
                   order = [\<lparr>item_id = ''b7'', name = ''Tea'', price = 20, quantity = 2\<rparr>],
                   table_total = 40, lastUpdate = Some 1704455000\<rparr>],
          sales_coll = [], writes = []\<rparr>"]
  by (simp add: iso_date_example)

text \<open>
  Claim C7. Save (\<open>handleSave\<close> of \<open>OrderModal\<close> calling \<open>saveOrder\<close> of \<open>App\<close>). When the
  write takes effect, the persisted document holds the cart as its order, its total is the
  sum of \<open>price * quantity\<close> over the cart's lines, computed from the cart at the moment
  of saving, and its status is \<open>Open\<close> if the cart is non-empty and \<open>Closed\<close> if it is
  empty, in which case the total is 0. When the write does not take effect, no table
  document changes.
\<close>

theorem handleSave_persists:
  "(db \<and> net (UpdateTable (tableId (table m))) \<and> tables_coll w (tableId (table m)) = Some t \<longrightarrow>
      tables_coll (snd (handleSave (saveOrder db net serverNow) m w))
      = (tables_coll w)(tableId (table m) \<mapsto>
          \<lparr>tableId = tableId t,
           status = (if currentOrder m = [] then Closed else Open),
           order = currentOrder m,
           table_total = (\<Sum>l\<leftarrow>currentOrder m. price l * quantity l),
           lastUpdate = Some serverNow\<rparr>))
   \<and> (\<not> (db \<and> net (UpdateTable (tableId (table m))) \<and> tables_coll w (tableId (table m)) \<noteq> None) \<longrightarrow>
      tables_coll (snd (handleSave (saveOrder db net serverNow) m w)) = tables_coll w)
   \<and> (currentOrder m = [] \<longrightarrow> (\<Sum>l\<leftarrow>currentOrder m. price l * quantity l) = 0)"
  by (auto simp: handleSave_def saveOrder_def updateDoc_def merge_fields_def tableTotal_sum
      split: option.splits)

text \<open>The theorem at table 3 with the cart Tea x 2, Hot Coffee x 1: the total is 70.\<close>

theorem handleSave_persists_witness:
  "tables_coll
     (snd (handleSave (saveOrder True (\<lambda>r. True) 1704456000)
        \<lparr>table = \<lparr>tableId = 3, status = Closed, order = [], table_total = 0, lastUpdate = None\<rparr>,
         currentOrder =
           [\<lparr>item_id = ''b7'', name = ''Tea'', price = 20, quantity = 2\<rparr>,
            \<lparr>item_id = ''b6'', name = ''Hot Coffee'', price = 30, quantity = 1\<rparr>],
         message = []\<rparr>
        \<lparr>tables_coll =
           [3 \<mapsto> \<lparr>tableId = 3, status = Closed, order = [], table_total = 0, lastUpdate = None\<rparr>],
         sales_coll = [], writes = []\<rparr>)) 3
   = Some \<lparr>tableId = 3, status = Open,
       order =
         [\<lparr>item_id = ''b7'', name = ''Tea'', price = 20, quantity = 2\<rparr>,
          \<lparr>item_id = ''b6'', name = ''Hot Coffee'', price = 30, quantity = 1\<rparr>],
       table_total = 70, lastUpdate = Some 1704456000\<rparr>"
  using handleSave_persists
    [of True "\<lambda>r. True"
        "\<lparr>table = \<lparr>tableId = 3, status = Closed, order = [], table_total = 0, lastUpdate = None\<rparr>,
         currentOrder =
           [\<lparr>item_id = ''b7'', name = ''Tea'', price = 20, quantity = 2\<rparr>,
            \<lparr>item_id = ''b6'', name = ''Hot Coffee'', price = 30, quantity = 1\<rparr>],
         message = []\<rparr>"
        "\<lparr>tables_coll =
           [3 \<mapsto> \<lparr>tableId = 3, status = Closed, order = [], table_total = 0, lastUpdate = None\<rparr>],
         sales_coll = [], writes = []\<rparr>"
        "\<lparr>tableId = 3, status = Closed, order = [], table_total = 0, lastUpdate = None\<rparr>"
        1704456000]
  by simp

text \<open>
  Claim C9, as the spec states it: after a checkout whose sale append took effect and whose
  table reset failed, a retry of the checkout for the same table and order records no second
  sale. \<open>handleCheckout\<close> has no idempotency key: \<open>addDoc\<close> appends a document on every
  call. At table 3 with the order Tea x 2, the store holds one sale after the failed run and
  two after the retry.
\<close>

theorem handleCheckout_retry_counterexample:
  "length (sales_coll
     (handleCheckout True (\<lambda>r. r = AddSale) 1704456000 1704456000000 3
        [\<lparr>item_id = ''b7'', name = ''Tea'', price = 20, quantity = 2\<rparr>] 40
        \<lparr>tables_coll =
            [3 \<mapsto> \<lparr>tableId = 3, status = Open,
                   order = [\<lparr>item_id = ''b7'', name = ''Tea'', price = 20, quantity = 2\<rparr>],
                   table_total = 40, lastUpdate = Some 1704455000\<rparr>],
          sales_coll = [], writes = []\<rparr>)) = 1
   \<and> length (sales_coll
     (handleCheckout True (\<lambda>r. True) 1704456060 1704456060000 3
        [\<lparr>item_id = ''b7'', name = ''Tea'', price = 20, quantity = 2\<rparr>] 40
        (handleCheckout True (\<lambda>r. r = AddSale) 1704456000 1704456000000 3
          [\<lparr>item_id = ''b7'', name = ''Tea'', price = 20, quantity = 2\<rparr>] 40
          \<lparr>tables_coll =
              [3 \<mapsto> \<lparr>tableId = 3, status = Open,
                     order = [\<lparr>item_id = ''b7'', name = ''Tea'', price = 20, quantity = 2\<rparr>],
                     table_total = 40, lastUpdate = Some 1704455000\<rparr>],
            sales_coll = [], writes = []\<rparr>))) = 2"
  by (simp add: handleCheckout_def addDoc_def updateDoc_def)

text \<open>
  Claim C9, amended. After a checkout whose sale append took effect and whose table reset
  failed (the sale is recorded, the table documents are as before), a retry of the
  checkout for the same table and order, with both writes reaching the store, appends a
  second sale with the same items and total and resets the table. Repeating the table
  reset (writing \<open>order = []\<close>, \<open>total = 0\<close>, \<open>status = Closed\<close> again) leaves the table
  documents as they are.
\<close>

theorem handleCheckout_retry:
  assumes "db" and "net1 AddSale" and "\<not> net1 (UpdateTable tid)"
    and "net2 AddSale" and "net2 (UpdateTable tid)" and "tables_coll w tid = Some t"
  shows
    "sales_coll (handleCheckout db net1 s1 c1 tid orderItems tot w)
       = sales_coll w @
         [\<lparr>sale_tableId = tid, items = orderItems, sale_total = tot,
           timestamp = Some s1, date = split_T_0 (toISOString c1)\<rparr>]
     \<and> tables_coll (handleCheckout db net1 s1 c1 tid orderItems tot w) = tables_coll w
     \<and> sales_coll (handleCheckout db net2 s2 c2 tid orderItems tot
          (handleCheckout db net1 s1 c1 tid orderItems tot w))
       = sales_coll w @
         [\<lparr>sale_tableId = tid, items = orderItems, sale_total = tot,
           timestamp = Some s1, date = split_T_0 (toISOString c1)\<rparr>,
          \<lparr>sale_tableId = tid, items = orderItems, sale_total = tot,
           timestamp = Some s2, date = split_T_0 (toISOString c2)\<rparr>]
     \<and> tables_coll (handleCheckout db net2 s2 c2 tid orderItems tot
          (handleCheckout db net1 s1 c1 tid orderItems tot w))
       = (tables_coll w)(tid \<mapsto>
           \<lparr>tableId = tableId t, status = Closed, order = [], table_total = 0,
            lastUpdate = lastUpdate t\<rparr>)
     \<and> tables_coll (snd (updateDoc net2 tid
          \<lparr>tableId_f = None, status_f = Some Closed, order_f = Some [],
           total_f = Some 0, lastUpdate_f = None\<rparr>
          (handleCheckout db net2 s2 c2 tid orderItems tot
            (handleCheckout db net1 s1 c1 tid orderItems tot w))))
       = tables_coll (handleCheckout db net2 s2 c2 tid orderItems tot
          (handleCheckout db net1 s1 c1 tid orderItems tot w))"
  using assms
  by (simp add: handleCheckout_def addDoc_def updateDoc_def merge_fields_def)

theorem handleCheckout_retry_witness:
  "map sale_total (sales_coll
     (handleCheckout True (\<lambda>r. True) 1704456060 1704456060000 3
        [\<lparr>item_id = ''b7'', name = ''Tea'', price = 20, quantity = 2\<rparr>] 40
        (handleCheckout True (\<lambda>r. r = AddSale) 1704456000 1704456000000 3
          [\<lparr>item_id = ''b7'', name = ''Tea'', price = 20, quantity = 2\<rparr>] 40
          \<lparr>tables_coll =
              [3 \<mapsto> \<lparr>tableId = 3, status = Open,
                     order = [\<lparr>item_id = ''b7'', name = ''Tea'', price = 20, quantity = 2\<rparr>],
                     table_total = 40, lastUpdate = Some 1704455000\<rparr>],
            sales_coll = [], writes = []\<rparr>))) = [40, 40]"
  using handleCheckout_retry
    [of True "\<lambda>r. r = AddSale" 3 "\<lambda>r. True"
      "\<lparr>tables_coll =
              [3 \<mapsto> \<lparr>tableId = 3, status = Open,
                     order = [\<lparr>item_id = ''b7'', name = ''Tea'', price = 20, quantity = 2\<rparr>],
                     table_total = 40, lastUpdate = Some 1704455000\<rparr>],
            sales_coll = [], writes = []\<rparr>"
      "\<lparr>tableId = 3, status = Open,
                     order = [\<lparr>item_id = ''b7'', name = ''Tea'', price = 20, quantity = 2\<rparr>],
                     table_total = 40, lastUpdate = Some 1704455000\<rparr>"
      1704456000 1704456000000
      "[\<lparr>item_id = ''b7'', name = ''Tea'', price = 20, quantity = 2\<rparr>]" 40
      1704456060 1704456060000]
  by simp

section \<open>Properties of the table initialisation\<close>

text \<open>
  The loop from table \<open>k\<close> on, when every write reaches the store: a document that exists
  for a table from \<open>k\<close> to 10 is overwritten with the initial status, order and total,
  and keeps only its \<open>lastUpdate\<close>.
\<close>

lemma initTables_from_overwrites:
  "\<forall>j. net (SetTable j) \<Longrightarrow> tables_coll w i = Some t \<Longrightarrow>
   tables_coll (initTables_from net k w) i
   = (if k \<le> i \<and> i \<le> 10
      then Some \<lparr>tableId = i, status = Closed, order = [], table_total = 0,
                 lastUpdate = lastUpdate t\<rparr>
      else Some t)"
proof (induction net k w arbitrary: t rule: initTables_from.induct)
  case (1 net k w)
  show ?case
  proof (cases "k \<le> 10")
    case False
    have "initTables_from net k w = w"
      using False by (subst initTables_from.simps) simp
    with "1.prems" False show ?thesis by auto
  next
    case True
    let ?f = "\<lparr>tableId_f = Some k, status_f = Some Closed, order_f = Some [],
            total_f = Some 0, lastUpdate_f = None\<rparr>"
    let ?r = "setDoc_merge net k ?f w"
    have ok: "fst ?r" using "1.prems"(1) by (simp add: setDoc_merge_def)
    have step: "initTables_from net k w = initTables_from net (k + 1) (snd ?r)"
      using True ok by (subst initTables_from.simps) (simp add: Let_def)
    show ?thesis
    proof (cases "i = k")
      case True
      have "tables_coll (snd ?r) i = Some \<lparr>tableId = i, status = Closed, order = [],
           table_total = 0, lastUpdate = lastUpdate t\<rparr>"
        using True "1.prems" by (simp add: setDoc_merge_def merge_fields_def)
      from "1.IH"[OF \<open>k \<le> 10\<close> refl ok "1.prems"(1) this] True \<open>k \<le> 10\<close> step
      show ?thesis by simp
    next
      case False
      have "tables_coll (snd ?r) i = Some t"
        using False "1.prems" by (simp add: setDoc_merge_def)
      from "1.IH"[OF \<open>k \<le> 10\<close> refl ok "1.prems"(1) this] False step
      show ?thesis by auto
    qed
  qed
qed

lemma initTables_overwrites_existing:
  "isAuthReady \<and> db \<and> (\<forall>j. net (SetTable j)) \<and> 1 \<le> i \<and> i \<le> 10 \<and> tables_coll w i = Some t \<longrightarrow>
   tables_coll (OrdersView_effect isAuthReady db [] net w) i
   = Some \<lparr>tableId = i, status = Closed, order = [], table_total = 0,
           lastUpdate = lastUpdate t\<rparr>"
  by (simp add: OrdersView_effect_def initTables_def initTables_from_overwrites)

text \<open>
  Claim C8 says that the initialisation writes for the tables 1 to 10 do not alter the
  order, total or status of a table that exists already, as the comment in \<open>initTables\<close>
  intends ("to ensure existence without overwriting"). The merge names \<open>status\<close>,
  \<open>order\<close> and \<open>total\<close>, so it replaces them. On a store where table 3 is open with the
  order Tea x 2 and the total 40, and a client whose own list of tables is still empty, the
  initialisation leaves table 3 closed with an empty order and the total 0.
\<close>

theorem initTables_overwrites_open_table:
  "tables_coll
     (OrdersView_effect True True [] (\<lambda>r. True)
        \<lparr>tables_coll =
            [3 \<mapsto> \<lparr>tableId = 3, status = Open,
                   order = [\<lparr>item_id = ''b7'', name = ''Tea'', price = 20, quantity = 2\<rparr>],
                   table_total = 40, lastUpdate = Some 1704455000\<rparr>],
          sales_coll = [], writes = []\<rparr>) 3
   = Some \<lparr>tableId = 3, status = Closed, order = [], table_total = 0,
           lastUpdate = Some 1704455000\<rparr>"
  by (simp add: OrdersView_effect_def initTables_def initTables_from.simps setDoc_merge_def
      merge_fields_def new_table_doc_def)

section \<open>Properties of the sales report\<close>

subsection \<open>Grouping\<close>

lemma first_keys_snoc:
  "first_keys (ks @ [k]) = (if k \<in> set ks then first_keys ks else first_keys ks @ [k])"
  by (simp add: first_keys_def)

lemma set_first_keys: "set (first_keys ks) = set ks"
  by (simp add: first_keys_def)

lemma distinct_first_keys: "distinct (first_keys ks)"
  by (simp add: first_keys_def)

lemma mset_first_keys: "mset (first_keys ks) = mset (remdups ks)"
proof -
  have "mset (first_keys ks) = mset_set (set ks)"
    using mset_set_set[OF distinct_first_keys, of ks] by (simp add: set_first_keys)
  also have "\<dots> = mset (remdups ks)"
    using mset_set_set[of "remdups ks"] by simp
  finally show ?thesis .
qed

lemma bucket_row_snoc_other:
  "kf s \<noteq> k \<Longrightarrow> bucket_row kf lf (xs @ [s]) k = bucket_row kf lf xs k"
  by (simp add: bucket_row_def)

lemma bucket_row_snoc_same_old:
  "\<exists>x \<in> set xs. kf x = kf s \<Longrightarrow>
   bucket_row kf lf (xs @ [s]) (kf s)
   = (bucket_row kf lf xs (kf s))\<lparr>sales := sales (bucket_row kf lf xs (kf s)) + sale_total s\<rparr>"
proof -
  assume "\<exists>x \<in> set xs. kf x = kf s"
  then have "filter (\<lambda>x. kf x = kf s) xs \<noteq> []"
    by (auto simp: filter_empty_conv)
  then show ?thesis
    by (simp add: bucket_row_def)
qed

lemma bucket_row_snoc_same_new:
  "\<forall>x \<in> set xs. kf x \<noteq> kf s \<Longrightarrow>
   bucket_row kf lf (xs @ [s]) (kf s) = \<lparr>row_name = lf s, sales = sale_total s\<rparr>"
proof -
  assume "\<forall>x \<in> set xs. kf x \<noteq> kf s"
  then have "filter (\<lambda>x. kf x = kf s) xs = []"
    by (auto simp: filter_empty_conv)
  then show ?thesis
    by (simp add: bucket_row_def)
qed

lemma map_of_keyed:
  "(map_of (map (\<lambda>k. (k, f k)) ks) k = None) = (k \<notin> set ks)"
  by (induction ks) auto

lemma add_to_bucket_old:
  "k \<in> set ks \<Longrightarrow>
   add_to_bucket (map (\<lambda>k. (k, f k)) ks) k l a
   = map (\<lambda>k'. (k', if k' = k then (f k')\<lparr>sales := sales (f k') + a\<rparr> else f k')) ks"
  by (simp add: add_to_bucket_def map_of_keyed)

lemma add_to_bucket_new:
  "k \<notin> set ks \<Longrightarrow>
   add_to_bucket (map (\<lambda>k. (k, f k)) ks) k l a
   = map (\<lambda>k. (k, f k)) ks @ [(k, \<lparr>row_name = l, sales = a\<rparr>)]"
  by (auto simp: add_to_bucket_def map_of_keyed)

lemma foldl_add_to_bucket:
  "foldl (\<lambda>data s. add_to_bucket data (kf s) (lf s) (sale_total s)) [] xs
   = map (\<lambda>k. (k, bucket_row kf lf xs k)) (first_keys (map kf xs))"
proof (induction xs rule: rev_induct)
  case Nil
  show ?case by (simp add: first_keys_def)
next
  case (snoc s xs)
  let ?ks = "first_keys (map kf xs)"
  have step: "foldl (\<lambda>data s. add_to_bucket data (kf s) (lf s) (sale_total s)) [] (xs @ [s])
    = add_to_bucket (map (\<lambda>k. (k, bucket_row kf lf xs k)) ?ks) (kf s) (lf s) (sale_total s)"
    by (simp add: snoc)
  show ?case
  proof (cases "\<exists>x \<in> set xs. kf x = kf s")
    case True
    then have old: "kf s \<in> set (map kf xs)"
      unfolding set_map by (metis imageI)
    then have "kf s \<in> set ?ks"
      by (metis set_first_keys)
    then have "add_to_bucket (map (\<lambda>k. (k, bucket_row kf lf xs k)) ?ks) (kf s) (lf s) (sale_total s)
      = map (\<lambda>k'. (k', if k' = kf s
          then (bucket_row kf lf xs k')\<lparr>sales := sales (bucket_row kf lf xs k') + sale_total s\<rparr>
          else bucket_row kf lf xs k')) ?ks"
      by (rule add_to_bucket_old)
    also have "\<dots> = map (\<lambda>k. (k, bucket_row kf lf (xs @ [s]) k)) ?ks"
      by (rule map_cong) (auto simp: bucket_row_snoc_other bucket_row_snoc_same_old[OF True])
    finally have r: "foldl (\<lambda>data s. add_to_bucket data (kf s) (lf s) (sale_total s)) []
        (xs @ [s]) = map (\<lambda>k. (k, bucket_row kf lf (xs @ [s]) k)) ?ks"
      by (rule trans[OF step])
    have e: "?ks = first_keys (map kf (xs @ [s]))"
      using old by (simp add: first_keys_snoc)
    show ?thesis
      by (rule trans[OF r]) (simp only: e)
  next
    case False
    then have none: "\<forall>x \<in> set xs. kf x \<noteq> kf s" by blast
    then have new: "kf s \<notin> set (map kf xs)"
      unfolding set_map by (metis imageE)
    then have new': "kf s \<notin> set ?ks"
      by (metis set_first_keys)
    have a: "add_to_bucket (map (\<lambda>k. (k, bucket_row kf lf xs k)) ?ks) (kf s) (lf s) (sale_total s)
      = map (\<lambda>k. (k, bucket_row kf lf xs k)) ?ks @ [(kf s, \<lparr>row_name = lf s, sales = sale_total s\<rparr>)]"
      using new' by (rule add_to_bucket_new)
    have b: "map (\<lambda>k. (k, bucket_row kf lf xs k)) ?ks
      = map (\<lambda>k. (k, bucket_row kf lf (xs @ [s]) k)) ?ks"
    proof (rule map_cong[OF refl])
      fix k
      assume "k \<in> set ?ks"
      with new' have "kf s \<noteq> k" by blast
      then show "(k, bucket_row kf lf xs k) = (k, bucket_row kf lf (xs @ [s]) k)"
        by (simp add: bucket_row_snoc_other)
    qed
    have c: "\<lparr>row_name = lf s, sales = sale_total s\<rparr> = bucket_row kf lf (xs @ [s]) (kf s)"
      by (simp add: bucket_row_snoc_same_new[OF none])
    have d: "map (\<lambda>k. (k, bucket_row kf lf xs k)) ?ks @ [(kf s, \<lparr>row_name = lf s, sales = sale_total s\<rparr>)]
      = map (\<lambda>k. (k, bucket_row kf lf (xs @ [s]) k)) (?ks @ [kf s])"
      unfolding b c by simp
    have r: "foldl (\<lambda>data s. add_to_bucket data (kf s) (lf s) (sale_total s)) []
        (xs @ [s]) = map (\<lambda>k. (k, bucket_row kf lf (xs @ [s]) k)) (?ks @ [kf s])"
      by (rule trans[OF step trans[OF a d]])
    have e: "?ks @ [kf s] = first_keys (map kf (xs @ [s]))"
      using new by (simp add: first_keys_snoc)
    show ?thesis
      by (rule trans[OF r]) (simp only: e)
  qed
qed

lemma mset_insert_sorted: "mset (insert_sorted cmp x ys) = add_mset x (mset ys)"
  by (induction ys) auto

lemma mset_Array_sort: "mset (Array_sort cmp xs) = mset xs"
  by (induction xs) (auto simp: Array_sort_def mset_insert_sorted)

lemma mset_Object_values: "mset (Object_values data) = mset (map snd data)"
proof -
  have "mset (filter (\<lambda>(k, r). is_array_index k) data)
        + mset (filter (\<lambda>(k, r). \<not> is_array_index k) data) = mset data"
    by (induction data) auto
  then have "image_mset snd (mset (filter (\<lambda>(k, r). is_array_index k) data))
        + image_mset snd (mset (filter (\<lambda>(k, r). \<not> is_array_index k) data))
        = image_mset snd (mset data)"
    by (metis image_mset_union)
  then show ?thesis
    by (simp add: Object_values_def)
qed

lemma aggregate_sale_add:
  "aggregate_sale rt tz (split_T_0 (toISOString now)) data sale
   = add_to_bucket data (bucketKey rt tz now sale) (bucketLabel rt tz now sale) (sale_total sale)"
  by (simp add: aggregate_sale_def bucketKey_def bucketLabel_def case_prod_beta)

lemma report_data:
  "foldl (aggregate_sale rt tz (split_T_0 (toISOString now))) [] salesData
   = map (\<lambda>k. (k, bucket_row (bucketKey rt tz now) (bucketLabel rt tz now) salesData k))
       (first_keys (map (bucketKey rt tz now) salesData))"
proof -
  have "aggregate_sale rt tz (split_T_0 (toISOString now))
        = (\<lambda>data s. add_to_bucket data (bucketKey rt tz now s) (bucketLabel rt tz now s)
             (sale_total s))"
    by (intro ext) (rule aggregate_sale_add)
  then show ?thesis
    by (simp only: foldl_add_to_bucket)
qed

lemma mset_aggregatedData:
  "mset (aggregatedData rt tz now salesData)
   = image_mset (bucket_row (bucketKey rt tz now) (bucketLabel rt tz now) salesData)
       (mset (remdups (map (bucketKey rt tz now) salesData)))"
proof -
  have "mset (aggregatedData rt tz now salesData)
        = mset (map snd (foldl (aggregate_sale rt tz (split_T_0 (toISOString now))) [] salesData))"
    by (simp add: aggregatedData_def Let_def mset_Array_sort mset_Object_values)
  also have "\<dots> = image_mset (bucket_row (bucketKey rt tz now) (bucketLabel rt tz now) salesData)
       (mset (first_keys (map (bucketKey rt tz now) salesData)))"
    unfolding report_data by (simp add: comp_def)
  finally show ?thesis
    by (simp only: mset_first_keys)
qed

lemma sum_list_none:
  "a \<notin> set ks \<Longrightarrow> (\<Sum>k\<leftarrow>ks. if a = k then c else (0::int)) = 0"
  by (induction ks) auto

lemma sum_list_single:
  "distinct ks \<Longrightarrow> a \<in> set ks \<Longrightarrow> (\<Sum>k\<leftarrow>ks. if a = k then c else (0::int)) = c"
  by (induction ks) (auto simp: sum_list_none)

lemma sum_over_buckets:
  "distinct ks \<Longrightarrow> set (map kf xs) \<subseteq> set ks \<Longrightarrow>
   (\<Sum>k\<leftarrow>ks. \<Sum>s\<leftarrow>filter (\<lambda>s. kf s = k) xs. sale_total s) = (\<Sum>s\<leftarrow>xs. sale_total s)"
proof (induction xs)
  case Nil
  show ?case by simp
next
  case (Cons x xs)
  have "(\<Sum>k\<leftarrow>ks. \<Sum>s\<leftarrow>filter (\<lambda>s. kf s = k) (x # xs). sale_total s)
        = (\<Sum>k\<leftarrow>ks. (if kf x = k then sale_total x else 0)
              + (\<Sum>s\<leftarrow>filter (\<lambda>s. kf s = k) xs. sale_total s))"
    by (rule arg_cong[where f = sum_list], rule map_cong[OF refl]) simp
  also have "\<dots> = (\<Sum>k\<leftarrow>ks. if kf x = k then sale_total x else 0)
              + (\<Sum>k\<leftarrow>ks. \<Sum>s\<leftarrow>filter (\<lambda>s. kf s = k) xs. sale_total s)"
    by (rule sum_list_addf)
  also have "(\<Sum>k\<leftarrow>ks. if kf x = k then sale_total x else 0) = sale_total x"
    using Cons.prems by (intro sum_list_single) auto
  also have "(\<Sum>k\<leftarrow>ks. \<Sum>s\<leftarrow>filter (\<lambda>s. kf s = k) xs. sale_total s) = (\<Sum>s\<leftarrow>xs. sale_total s)"
    using Cons by auto
  finally show ?case by simp
qed

lemma sum_list_mset_cong:
  "mset xs = mset ys \<Longrightarrow> sum_list (map f xs) = (sum_list (map f ys) :: int)"
  by (metis mset_map sum_mset_sum_list)

lemma totalSales_sum: "totalSales rows = (\<Sum>r\<leftarrow>rows. sales r)"
proof -
  have "foldl (\<lambda>sum item. sum + sales item) a rows = a + (\<Sum>r\<leftarrow>rows. sales r)" for a
    by (induction rows arbitrary: a) auto
  then show ?thesis by (simp add: totalSales_def)
qed

lemma sales_aggregatedData:
  "(\<Sum>r\<leftarrow>aggregatedData rt tz now salesData. sales r) = (\<Sum>s\<leftarrow>salesData. sale_total s)"
proof -
  let ?kf = "bucketKey rt tz now" and ?lf = "bucketLabel rt tz now"
  let ?ks = "first_keys (map ?kf salesData)"
  have "mset (aggregatedData rt tz now salesData) = mset (map (bucket_row ?kf ?lf salesData) ?ks)"
    by (simp add: mset_aggregatedData mset_first_keys)
  then have "(\<Sum>r\<leftarrow>aggregatedData rt tz now salesData. sales r)
     = (\<Sum>r\<leftarrow>map (bucket_row ?kf ?lf salesData) ?ks. sales r)"
    by (rule sum_list_mset_cong)
  also have "\<dots> = (\<Sum>k\<leftarrow>?ks. \<Sum>s\<leftarrow>filter (\<lambda>s. ?kf s = k) salesData. sale_total s)"
    by (simp add: bucket_row_def comp_def)
  also have "\<dots> = (\<Sum>s\<leftarrow>salesData. sale_total s)"
    by (rule sum_over_buckets) (simp_all add: distinct_first_keys set_first_keys)
  finally show ?thesis .
qed

lemma length_aggregatedData:
  "length (aggregatedData rt tz now salesData) = card (bucketKey rt tz now ` set salesData)"
proof -
  have "length (aggregatedData rt tz now salesData) = size (mset (aggregatedData rt tz now salesData))"
    by simp
  also have "\<dots> = length (remdups (map (bucketKey rt tz now) salesData))"
    unfolding mset_aggregatedData by simp
  also have "\<dots> = card (bucketKey rt tz now ` set salesData)"
    by (simp add: length_remdups_card_conv)
  finally show ?thesis .
qed

subsection \<open>Sorting\<close>

lemma set_insert_sorted: "set (insert_sorted cmp x ys) = insert x (set ys)"
  by (induction ys) auto

lemma sorted_insert_sorted:
  "sorted (map row_name ys) \<Longrightarrow>
   sorted (map row_name
     (insert_sorted (\<lambda>a b. localeCompare (row_name a) (row_name b)) x ys))"
  by (induction ys) (auto simp: localeCompare_def set_insert_sorted split: if_splits)

lemma sorted_Array_sort:
  "sorted (map row_name (Array_sort (\<lambda>a b. localeCompare (row_name a) (row_name b)) xs))"
  by (induction xs) (auto simp: Array_sort_def sorted_insert_sorted)

subsection \<open>Evaluation on the example\<close>

lemma decimal_small: "n < 10 \<Longrightarrow> decimal n = [digit n]"
  by (simp add: decimal.simps)

lemma decimal_large: "\<not> n < 10 \<Longrightarrow> decimal n = decimal (n div 10) @ [digit n]"
  by (subst decimal.simps) simp

lemma pad_short: "length s < w \<Longrightarrow> pad w s = pad w (CHR ''0'' # s)"
proof -
  assume "length s < w"
  then obtain k where k: "w - length s = Suc k"
    by (metis Suc_diff_Suc)
  then have "w - Suc (length s) = k" by simp
  with k show ?thesis
    by (simp add: pad_def replicate_app_Cons_same)
qed

lemma pad_done: "\<not> length s < w \<Longrightarrow> pad w s = s"
  by (simp add: pad_def)

lemma civil_examples:
  "civil_from_days 19727 = (2024, 1, 5)"
  "civil_from_days 19729 = (2024, 1, 7)"
  "civil_from_days 19754 = (2024, 2, 1)"
  "civil_from_days 19791 = (2024, 3, 9)"
  by code_simp+

lemma toISOString_examples:
  "toISOString 1704456000000 = ''2024-01-05T12:00:00.000Z''"
  "toISOString 1704628800000 = ''2024-01-07T12:00:00.000Z''"
  "toISOString 1706788800000 = ''2024-02-01T12:00:00.000Z''"
  "toISOString 1710000000000 = ''2024-03-09T16:00:00.000Z''"
  "toISOString 1709942400000 = ''2024-03-09T00:00:00.000Z''"
  by (simp_all add: toISOString_def Day_def msPerDay_def civil_examples pad_short pad_done
      decimal_small decimal_large digit_def)

lemma Intl_format_examples:
  "Intl_format (\<lambda>t. 0) 1704456000000 = ''Jan 2024''"
  "Intl_format (\<lambda>t. 0) 1704628800000 = ''Jan 2024''"
  "Intl_format (\<lambda>t. 0) 1706788800000 = ''Feb 2024''"
  by (simp_all add: Intl_format_def LocalTime_def Day_def msPerDay_def civil_examples
      month_short_def Number_toString_def decimal_small decimal_large digit_def)

lemma Date_parse_example: "Date_parse ''2024-03-09'' = 1709942400000"
  by code_simp

lemma bucket_examples:
  "bucket Daily (\<lambda>t. 0) 1704456000000 = (''2024-01-05'', ''2024-01-05'')"
  "bucket Daily (\<lambda>t. 0) 1704628800000 = (''2024-01-07'', ''2024-01-07'')"
  "bucket Daily (\<lambda>t. 0) 1706788800000 = (''2024-02-01'', ''2024-02-01'')"
  "bucket Daily (\<lambda>t. 0) 1709942400000 = (''2024-03-09'', ''2024-03-09'')"
  "bucket Monthly (\<lambda>t. 0) 1704456000000 = (''2024-01'', ''Jan 2024'')"
  "bucket Monthly (\<lambda>t. 0) 1704628800000 = (''2024-01'', ''Jan 2024'')"
  "bucket Monthly (\<lambda>t. 0) 1706788800000 = (''2024-02'', ''Feb 2024'')"
  by (simp_all add: bucket_def Let_def toISOString_examples Intl_format_examples split_T_0_def)

lemma today_example: "split_T_0 (toISOString 1710000000000) = ''2024-03-09''"
  by (simp add: toISOString_examples split_T_0_def)

lemmas report_eval =
  aggregatedData_def Let_def aggregate_sale_def saleDate_def add_to_bucket_def
  Object_values_def Array_sort_def localeCompare_def is_array_index_def parse_decimal_def
  digit_value_def bucket_examples today_example Date_parse_example example_sales_def

lemma example_daily:
  "aggregatedData Daily (\<lambda>t. 0) 1710000000000 example_sales
   = [\<lparr>row_name = ''2024-01-05'', sales = 50\<rparr>, \<lparr>row_name = ''2024-01-07'', sales = 30\<rparr>,
      \<lparr>row_name = ''2024-02-01'', sales = 20\<rparr>]"
  by (simp add: report_eval)

lemma example_monthly:
  "aggregatedData Monthly (\<lambda>t. 0) 1710000000000 example_sales
   = [\<lparr>row_name = ''Feb 2024'', sales = 20\<rparr>, \<lparr>row_name = ''Jan 2024'', sales = 80\<rparr>]"
  by (simp add: report_eval)

lemma example_no_timestamp:
  "aggregatedData Daily (\<lambda>t. 0) 1710000000000
     [\<lparr>sale_tableId = 1, items = [], sale_total = 50, timestamp = None, date = ''2024-01-05''\<rparr>]
   = [\<lparr>row_name = ''2024-03-09'', sales = 50\<rparr>]"
  by (simp add: report_eval)

subsection \<open>Format of the bucket keys\<close>

text \<open>
  For an instant whose calendar date has a year from 0 to 9999, as every Firestore
  timestamp has, the Daily key is the ten characters \<open>YYYY-MM-DD\<close> of the UTC date and the
  Monthly key is its first seven characters, \<open>YYYY-MM\<close>.
\<close>

lemma digit_in_digits: "digit k \<in> set ''0123456789''"
proof -
  have "k mod 10 < length ''0123456789''" by simp
  then show ?thesis unfolding digit_def by (rule nth_mem)
qed

lemma set_decimal: "set (decimal n) \<subseteq> set ''0123456789''"
proof (induction n rule: decimal.induct)
  case (1 n)
  show ?case
  proof (cases "n < 10")
    case True
    then have "decimal n = [digit n]" by (simp add: decimal.simps)
    then show ?thesis using digit_in_digits[of n] by simp
  next
    case False
    then have "decimal n = decimal (n div 10) @ [digit n]" by (subst decimal.simps) simp
    then show ?thesis using 1[OF False] digit_in_digits[of n] by simp
  qed
qed

lemma length_decimal: "0 < k \<Longrightarrow> n < 10 ^ k \<Longrightarrow> length (decimal n) \<le> k"
proof (induction k arbitrary: n)
  case 0
  then show ?case by simp
next
  case (Suc k)
  show ?case
  proof (cases "n < 10")
    case True
    then show ?thesis by (simp add: decimal.simps)
  next
    case False
    then have d: "decimal n = decimal (n div 10) @ [digit n]" by (subst decimal.simps) simp
    from False Suc.prems have "0 < k" by (cases k) auto
    moreover from Suc.prems have "n div 10 < 10 ^ k" by (simp add: less_mult_imp_div_less mult.commute)
    ultimately have "length (decimal (n div 10)) \<le> k" by (rule Suc.IH)
    with d show ?thesis by simp
  qed
qed

lemma length_pad: "length s \<le> w \<Longrightarrow> length (pad w s) = w"
  by (simp add: pad_def)

lemma set_pad: "set (pad w s) \<subseteq> insert (CHR ''0'') (set s)"
  by (auto simp: pad_def)

lemma split_T_0_append: "CHR ''T'' \<notin> set a \<Longrightarrow> split_T_0 (a @ CHR ''T'' # r) = a"
  unfolding split_T_0_def by (induction a) auto

lemma no_T_pad_decimal: "CHR ''T'' \<notin> set (pad w (decimal n))"
proof
  assume "CHR ''T'' \<in> set (pad w (decimal n))"
  then have "CHR ''T'' \<in> insert (CHR ''0'') (set ''0123456789'')"
    using set_pad[of w "decimal n"] set_decimal[of n] by blast
  then show False by simp
qed

lemma toISOString_date_part:
  assumes c: "civil_from_days (Day t) = (y, m, d)" and y: "0 \<le> y" "y \<le> 9999"
  shows "\<exists>r. toISOString t
     = (pad 4 (decimal (nat y)) @ ''-'' @ pad 2 (decimal (nat m)) @ ''-'' @ pad 2 (decimal (nat d)))
       @ CHR ''T'' # r"
  unfolding toISOString_def c using y by (simp add: Let_def)

lemma bucket_key_format:
  assumes c: "civil_from_days (Day t) = (y, m, d)"
    and y: "0 \<le> y" "y \<le> 9999" and m: "1 \<le> m" "m \<le> 12" and d: "1 \<le> d" "d \<le> 31"
  shows "fst (bucket Daily tz t)
         = pad 4 (decimal (nat y)) @ ''-'' @ pad 2 (decimal (nat m)) @ ''-'' @ pad 2 (decimal (nat d))
    \<and> length (fst (bucket Daily tz t)) = 10
    \<and> fst (bucket Monthly tz t) = pad 4 (decimal (nat y)) @ ''-'' @ pad 2 (decimal (nat m))
    \<and> fst (bucket Monthly tz t) = take 7 (fst (bucket Daily tz t))"
proof -
  let ?Y = "pad 4 (decimal (nat y))" and ?M = "pad 2 (decimal (nat m))"
    and ?D = "pad 2 (decimal (nat d))"
  have ly: "length ?Y = 4"
    using y by (intro length_pad length_decimal) auto
  have lm: "length ?M = 2"
    using m by (intro length_pad length_decimal) auto
  have ld: "length ?D = 2"
    using d by (intro length_pad length_decimal) auto
  obtain r where iso: "toISOString t = (?Y @ ''-'' @ ?M @ ''-'' @ ?D) @ CHR ''T'' # r"
    using toISOString_date_part[OF c y] by blast
  have noT: "CHR ''T'' \<notin> set (?Y @ ''-'' @ ?M @ ''-'' @ ?D)"
    using no_T_pad_decimal by simp
  have daily: "fst (bucket Daily tz t) = ?Y @ ''-'' @ ?M @ ''-'' @ ?D"
    unfolding bucket_def iso using split_T_0_append[OF noT] by (simp add: Let_def)
  have monthly: "fst (bucket Monthly tz t) = ?Y @ ''-'' @ ?M"
    unfolding bucket_def iso using ly lm by simp
  have "length (fst (bucket Daily tz t)) = 10"
    unfolding daily using ly lm ld by simp
  moreover have "fst (bucket Monthly tz t) = take 7 (fst (bucket Daily tz t))"
    unfolding monthly daily using ly lm by simp
  ultimately show ?thesis using daily monthly by simp
qed

subsection \<open>The report\<close>

text \<open>
  Claim C4. For every list of sales and every report type:
  \<^item> the bucket key of a sale is computed from its timestamp if it has one, and from the
    current date (midnight UTC of today) if it has none;
  \<^item> the report has one row for each distinct bucket key, and the row of a key carries the
    sum of the totals of the sales with that key (and the label of the first of them);
  \<^item> \<open>totalSales\<close> is the sum of the rows' values, which is the sum of all sale totals;
  \<^item> for an instant \<open>t\<close> on the UTC date \<open>(y, m, d)\<close> with a year from 0 to 9999, the
    Daily key is \<open>YYYY-MM-DD\<close>, ten characters, and the Monthly key is \<open>YYYY-MM\<close>, the
    first seven of them; the Yearly key is the decimal numeral of the local year.

  For the three sales of the example (time zone UTC), the Daily report has the rows
  2024-01-05: 50, 2024-01-07: 30, 2024-02-01: 20 and \<open>totalSales\<close> is 100; the Monthly
  report has the rows Jan 2024: 80 and Feb 2024: 20, which the sort by label puts in the
  order Feb 2024, Jan 2024. A sale without timestamp, read on 2024-03-09, falls into the
  bucket of that day whatever its \<open>date\<close> field says.
\<close>

theorem aggregatedData_group_by_sum:
  "bucketKey rt tz now s
     = fst (bucket rt tz
         (case timestamp s of
            Some seconds \<Rightarrow> seconds * 1000
          | None \<Rightarrow> Date_parse (split_T_0 (toISOString now))))
   \<and> mset (aggregatedData rt tz now salesData)
     = image_mset
         (\<lambda>k. \<lparr>row_name =
                 bucketLabel rt tz now (hd (filter (\<lambda>s. bucketKey rt tz now s = k) salesData)),
               sales = (\<Sum>s\<leftarrow>filter (\<lambda>s. bucketKey rt tz now s = k) salesData. sale_total s)\<rparr>)
         (mset (remdups (map (bucketKey rt tz now) salesData)))
   \<and> length (aggregatedData rt tz now salesData) = card (bucketKey rt tz now ` set salesData)
   \<and> totalSales (aggregatedData rt tz now salesData)
     = (\<Sum>r\<leftarrow>aggregatedData rt tz now salesData. sales r)
   \<and> totalSales (aggregatedData rt tz now salesData) = (\<Sum>s\<leftarrow>salesData. sale_total s)
   \<and> (civil_from_days (Day t) = (y, m, d) \<and> 0 \<le> y \<and> y \<le> 9999
        \<and> 1 \<le> m \<and> m \<le> 12 \<and> 1 \<le> d \<and> d \<le> 31 \<longrightarrow>
      fst (bucket Daily tz t)
        = pad 4 (decimal (nat y)) @ ''-'' @ pad 2 (decimal (nat m)) @ ''-''
          @ pad 2 (decimal (nat d))
      \<and> length (fst (bucket Daily tz t)) = 10
      \<and> fst (bucket Monthly tz t) = pad 4 (decimal (nat y)) @ ''-'' @ pad 2 (decimal (nat m))
      \<and> fst (bucket Monthly tz t) = take 7 (fst (bucket Daily tz t)))
   \<and> fst (bucket Yearly tz t) = Number_toString (getFullYear tz t)
   \<and> aggregatedData Daily (\<lambda>t. 0) 1710000000000 example_sales
     = [\<lparr>row_name = ''2024-01-05'', sales = 50\<rparr>, \<lparr>row_name = ''2024-01-07'', sales = 30\<rparr>,
        \<lparr>row_name = ''2024-02-01'', sales = 20\<rparr>]
   \<and> totalSales (aggregatedData Daily (\<lambda>t. 0) 1710000000000 example_sales) = 100
   \<and> aggregatedData Monthly (\<lambda>t. 0) 1710000000000 example_sales
     = [\<lparr>row_name = ''Feb 2024'', sales = 20\<rparr>, \<lparr>row_name = ''Jan 2024'', sales = 80\<rparr>]
   \<and> aggregatedData Daily (\<lambda>t. 0) 1710000000000
       [\<lparr>sale_tableId = 1, items = [], sale_total = 50, timestamp = None,
         date = ''2024-01-05''\<rparr>]
     = [\<lparr>row_name = ''2024-03-09'', sales = 50\<rparr>]"
proof -
  have key: "bucketKey rt tz now s
     = fst (bucket rt tz
         (case timestamp s of
            Some seconds \<Rightarrow> seconds * 1000
          | None \<Rightarrow> Date_parse (split_T_0 (toISOString now))))"
    by (simp add: bucketKey_def saleDate_def)
  have rows: "mset (aggregatedData rt tz now salesData)
     = image_mset
         (\<lambda>k. \<lparr>row_name =
                 bucketLabel rt tz now (hd (filter (\<lambda>s. bucketKey rt tz now s = k) salesData)),
               sales = (\<Sum>s\<leftarrow>filter (\<lambda>s. bucketKey rt tz now s = k) salesData. sale_total s)\<rparr>)
         (mset (remdups (map (bucketKey rt tz now) salesData)))"
    using mset_aggregatedData[of rt tz now salesData] by (simp add: bucket_row_def[abs_def])
  have total: "totalSales (aggregatedData rt tz now salesData) = (\<Sum>s\<leftarrow>salesData. sale_total s)"
    by (simp only: totalSales_sum sales_aggregatedData)
  have hundred: "totalSales (aggregatedData Daily (\<lambda>t. 0) 1710000000000 example_sales) = 100"
    by (simp add: example_daily totalSales_def)
  have format: "civil_from_days (Day t) = (y, m, d) \<and> 0 \<le> y \<and> y \<le> 9999
        \<and> 1 \<le> m \<and> m \<le> 12 \<and> 1 \<le> d \<and> d \<le> 31 \<longrightarrow>
      fst (bucket Daily tz t)
        = pad 4 (decimal (nat y)) @ ''-'' @ pad 2 (decimal (nat m)) @ ''-''
          @ pad 2 (decimal (nat d))
      \<and> length (fst (bucket Daily tz t)) = 10
      \<and> fst (bucket Monthly tz t) = pad 4 (decimal (nat y)) @ ''-'' @ pad 2 (decimal (nat m))
      \<and> fst (bucket Monthly tz t) = take 7 (fst (bucket Daily tz t))"
    using bucket_key_format[of t y m d tz] by blast
  have yearly: "fst (bucket Yearly tz t) = Number_toString (getFullYear tz t)"
    by (simp add: bucket_def Let_def)
  show ?thesis
    by (intro conjI key rows length_aggregatedData totalSales_sum total format yearly
        example_daily hundred example_monthly example_no_timestamp)
qed

text \<open>
  The theorem at the three sales of the example, for a client in the time zone UTC+05:30
  and the Yearly report: their totals add up to the 100 of \<open>totalSales\<close>; and at the instant
  of the first sale, 2024-01-05T12:00:00Z, for the format of the keys.
\<close>

theorem aggregatedData_group_by_sum_witness:
  "totalSales (aggregatedData Yearly (\<lambda>t. 19800000) 1710000000000 example_sales) = 100
   \<and> length (fst (bucket Daily (\<lambda>t. 19800000) 1704456000000)) = 10
   \<and> fst (bucket Monthly (\<lambda>t. 19800000) 1704456000000)
     = take 7 (fst (bucket Daily (\<lambda>t. 19800000) 1704456000000))"
proof -
  note report =
    aggregatedData_group_by_sum
      [where rt = Yearly and tz = "\<lambda>t. 19800000" and now = 1710000000000
         and s = "hd example_sales" and salesData = example_sales
         and t = 1704456000000 and y = 2024 and m = 1 and d = 5]
  have date: "civil_from_days (Day 1704456000000) = (2024, 1, 5)"
    by (simp add: Day_def msPerDay_def civil_examples)
  have "totalSales (aggregatedData Yearly (\<lambda>t. 19800000) 1710000000000 example_sales)
        = (\<Sum>s\<leftarrow>example_sales. sale_total s)"
    using report
      [THEN conjunct2, THEN conjunct2, THEN conjunct2, THEN conjunct2, THEN conjunct1]
    by simp
  moreover have "civil_from_days (Day 1704456000000) = (2024, 1, 5) \<and> (0::int) \<le> 2024
    \<and> (2024::int) \<le> 9999 \<and> (1::int) \<le> 1 \<and> (1::int) \<le> 12 \<and> (1::int) \<le> 5 \<and> (5::int) \<le> 31"
    using date by simp
  then have "length (fst (bucket Daily (\<lambda>t. 19800000) 1704456000000)) = 10
    \<and> fst (bucket Monthly (\<lambda>t. 19800000) 1704456000000)
      = take 7 (fst (bucket Daily (\<lambda>t. 19800000) 1704456000000))"
    using report
      [THEN conjunct2, THEN conjunct2, THEN conjunct2, THEN conjunct2, THEN conjunct2,
       THEN conjunct1, THEN mp]
    by blast
  ultimately show ?thesis
    by (simp add: example_sales_def)
qed

text \<open>
  Claim C5. For every list of sales and every report type, the rows of the report are
  sorted by label in lexicographic order (the order on \<open>string\<close>: character by character,
  by character code, a proper prefix first): the labels of every two consecutive rows are
  in non-decreasing order.
\<close>

theorem aggregatedData_sorted:
  "sorted (map row_name (aggregatedData rt tz now salesData))
   \<and> (\<forall>i. Suc i < length (aggregatedData rt tz now salesData) \<longrightarrow>
        row_name (aggregatedData rt tz now salesData ! i)
        \<le> row_name (aggregatedData rt tz now salesData ! Suc i))"
proof -
  have s: "sorted (map row_name (aggregatedData rt tz now salesData))"
    by (simp add: aggregatedData_def Let_def sorted_Array_sort)
  then have "\<forall>i. Suc i < length (map row_name (aggregatedData rt tz now salesData)) \<longrightarrow>
        map row_name (aggregatedData rt tz now salesData) ! i
        \<le> map row_name (aggregatedData rt tz now salesData) ! Suc i"
    by (simp only: sorted_iff_nth_Suc)
  with s show ?thesis by simp
qed

text \<open>The theorem at the Monthly report of the example: Feb 2024 comes before Jan 2024.\<close>

theorem aggregatedData_sorted_witness:
  "row_name (aggregatedData Monthly (\<lambda>t. 0) 1710000000000 example_sales ! 0)
   \<le> row_name (aggregatedData Monthly (\<lambda>t. 0) 1710000000000 example_sales ! Suc 0)"
  using aggregatedData_sorted [of Monthly "\<lambda>t. 0" 1710000000000 example_sales]
  by (simp add: example_monthly)

end
